theory Spec2Isabelle
  imports Complex_Main "HOL-Library.Multiset"
begin

section \<open>Numbers and Python built-ins\<close>

text \<open>
  The pipeline of \<^verbatim>\<open>scripts/fetch_all.py\<close> computes with Python numbers (ints and
  floats). They are embedded as \<^typ>\<open>real\<close>: every arithmetic operation is exact. The
  only rounding of the model is the one the source writes out, \<^verbatim>\<open>round(x, 4)\<close>;
  the rounding of IEEE floats after each operation is left out, so an equality proved
  here holds in the running program up to that rounding. Infinities and \<^verbatim>\<open>nan\<close> are
  not numbers of the model, except in a cell of a balance sheet, where the source tests
  for \<^verbatim>\<open>nan\<close>. A dictionary is a partial map; a key that is absent (or holds
  \<^verbatim>\<open>None\<close>) is \<^term>\<open>None\<close>.
\<close>

datatype py_error = ZeroDivisionError

text \<open>Python's \<^verbatim>\<open>a / b\<close> on numbers: it raises when the divisor is zero.\<close>

definition py_div :: "real \<Rightarrow> real \<Rightarrow> py_error + real" where
  "py_div a b = (if b = 0 then Inl ZeroDivisionError else Inr (a / b))"

text \<open>Rounding to the nearest integer, a tie going to the even neighbour.\<close>

definition round_half_even :: "real \<Rightarrow> int" where
  "round_half_even x =
     (let f = \<lfloor>x\<rfloor>; d = x - of_int f
      in if d < 1 / 2 then f
         else if 1 / 2 < d then f + 1
         else if even f then f else f + 1)"

text \<open>Python's \<^verbatim>\<open>round(x, ndigits)\<close>.\<close>

definition py_round :: "real \<Rightarrow> nat \<Rightarrow> real" where
  "py_round x ndigits = of_int (round_half_even (x * 10 ^ ndigits)) / 10 ^ ndigits"

section \<open>FX rates\<close>

type_synonym fx_rates = "string \<rightharpoonup> real"

text \<open>\<^verbatim>\<open>fx_rates.get(code, 1)\<close>.\<close>

definition fx_get :: "fx_rates \<Rightarrow> string \<Rightarrow> real" where
  "fx_get fx code = (case fx code of None \<Rightarrow> 1 | Some r \<Rightarrow> r)"

section \<open>Zakat computation\<close>

text \<open>
  Lines 303--305 of \<^verbatim>\<open>_convert_and_calc_pct\<close>: the market cap is quoted in pounds
  also where the share price is quoted in pence.
\<close>

definition mcap_curr :: "string \<Rightarrow> string" where
  "mcap_curr trade_curr =
     (if trade_curr = ''GBp'' \<or> trade_curr = ''GBX'' then ''GBP'' else trade_curr)"

text \<open>
  Lines 307--311: the amount goes from the financial currency to the market-cap currency
  through the base currency of the table.
\<close>

definition convert :: "real \<Rightarrow> string \<Rightarrow> string \<Rightarrow> fx_rates \<Rightarrow> py_error + real" where
  "convert net_val fin_curr mcap fx =
     (if fin_curr \<noteq> mcap then
        (let fin_rate = fx_get fx fin_curr; mcap_rate = fx_get fx mcap
         in if 0 < fin_rate \<and> 0 < mcap_rate
            then (case py_div net_val fin_rate of
                    Inl e \<Rightarrow> Inl e
                  | Inr q \<Rightarrow> Inr (q * mcap_rate))
            else Inr net_val)
      else Inr net_val)"

text \<open>
  Lines 303--311 as one step: the currency normalisation that
  \<^verbatim>\<open>_convert_and_calc_pct\<close> applies to an amount reported in \<open>fin_curr\<close> for a
  company traded in \<open>trade_curr\<close>.
\<close>

definition normalize_amount :: "real \<Rightarrow> string \<Rightarrow> string \<Rightarrow> fx_rates \<Rightarrow> py_error + real" where
  "normalize_amount net_val fin_curr trade_curr fx = convert net_val fin_curr (mcap_curr trade_curr) fx"

text \<open>\<^verbatim>\<open>_convert_and_calc_pct\<close> (an Isabelle name cannot start with an underscore).\<close>

definition convert_and_calc_pct ::
  "real \<Rightarrow> real \<Rightarrow> string \<Rightarrow> string \<Rightarrow> fx_rates \<Rightarrow> py_error + real" where
  "convert_and_calc_pct net_val market_cap fin_curr trade_curr fx =
     (case normalize_amount net_val fin_curr trade_curr fx of
        Inl e \<Rightarrow> Inl e
      | Inr v \<Rightarrow>
          (case py_div v market_cap of
             Inl e \<Rightarrow> Inl e
           | Inr q \<Rightarrow> Inr (py_round (max 0 (min (q * 100) 100)) 4)))"

text \<open>
  A company record is the dictionary that \<^verbatim>\<open>fetch_company\<close> returns and that the
  computation reads with \<^verbatim>\<open>.get\<close>: every key may be absent. The nested
  dictionaries \<open>assets\<close>, \<open>assets_broad\<close> and \<open>liabilities\<close> map a line-item name to
  its amount.
\<close>

record company_data =
  ticker :: "string option"
  long_name :: "string option"
  market_cap :: "real option"
  trading_currency :: "string option"
  financial_currency :: "string option"
  current_price :: "real option"
  bs_date :: "string option"
  bs_type :: "string option"
  assets :: "(string \<rightharpoonup> real) option"
  assets_broad :: "(string \<rightharpoonup> real) option"
  liabilities :: "(string \<rightharpoonup> real) option"
  net_zakaatable :: "real option"
  net_zakaatable_broad :: "real option"
  net_zakaatable_assets_only :: "real option"
  error :: "string option"
  zakaatable_pct :: "real option"
  fallback :: "bool option"

text \<open>The empty dictionary \<^verbatim>\<open>{}\<close>, which stands in for a ticker with no record.\<close>

definition empty_company_data :: company_data where
  "empty_company_data =
     \<lparr>ticker = None, long_name = None, market_cap = None, trading_currency = None,
      financial_currency = None, current_price = None, bs_date = None, bs_type = None,
      assets = None, assets_broad = None, liabilities = None, net_zakaatable = None,
      net_zakaatable_broad = None, net_zakaatable_assets_only = None, error = None,
      zakaatable_pct = None, fallback = None\<rparr>"

text \<open>\<^verbatim>\<open>d.get(key, default)\<close> on a field that may be absent.\<close>

definition get_or :: "'a option \<Rightarrow> 'a \<Rightarrow> 'a" where
  "get_or v d = (case v of None \<Rightarrow> d | Some x \<Rightarrow> x)"

text \<open>\<^verbatim>\<open>company_data.get(key, {}).get("total", default)\<close>.\<close>

definition get_total :: "(string \<rightharpoonup> real) option \<Rightarrow> real \<Rightarrow> real" where
  "get_total d dflt = (case d of None \<Rightarrow> dflt | Some m \<Rightarrow> get_or (m ''total'') dflt)"

definition compute_zakaatable_pcts ::
  "company_data \<Rightarrow> fx_rates \<Rightarrow> py_error + (real \<times> real \<times> real)" where
  "compute_zakaatable_pcts cd fx =
     (if fallback cd = Some True then
        (let fb = get_or (zakaatable_pct cd) 25 in Inr (fb, fb, fb))
      else
        (let mc = get_or (market_cap cd) 0
         in if mc = 0 \<or> mc \<le> 0 then Inr (25, 25, 25)
            else
              (let fin_curr = get_or (financial_currency cd) ''USD'';
                   trade_curr = get_or (trading_currency cd) ''USD'';
                   net_strict = get_or (net_zakaatable cd) 0;
                   net_broad = get_or (net_zakaatable_broad cd) net_strict;
                   assets_only =
                     get_or (net_zakaatable_assets_only cd)
                       (get_total (assets_broad cd) (get_total (assets cd) net_broad))
               in case convert_and_calc_pct net_strict mc fin_curr trade_curr fx of
                    Inl e \<Rightarrow> Inl e
                  | Inr pct_strict \<Rightarrow>
                      (case convert_and_calc_pct net_broad mc fin_curr trade_curr fx of
                         Inl e \<Rightarrow> Inl e
                       | Inr pct_broad \<Rightarrow>
                           (case convert_and_calc_pct assets_only mc fin_curr trade_curr fx of
                              Inl e \<Rightarrow> Inl e
                            | Inr pct_assets_only \<Rightarrow>
                                Inr (pct_strict, pct_broad, pct_assets_only))))))"

section \<open>Balance sheet fetcher\<close>

text \<open>
  The latest column of a balance sheet is a pandas series: an index of field names, each
  with a cell. A cell holds a number, \<^verbatim>\<open>None\<close> or the float \<^verbatim>\<open>nan\<close>.
\<close>

datatype cell = PyNone | NaN | Num real

type_synonym series = "(string \<times> cell) list"

text \<open>
  \<^verbatim>\<open>name in series.index\<close> and then \<^verbatim>\<open>val is not None and not nan\<close>: the number
  under a name, when there is one.
\<close>

definition numeric_at :: "series \<Rightarrow> string \<Rightarrow> real option" where
  "numeric_at s name =
     (case map_of s name of
        Some (Num v) \<Rightarrow> Some v
      | _ \<Rightarrow> None)"

text \<open>\<^verbatim>\<open>ch.isupper()\<close>, for the ASCII letters of the field names the fetcher asks for.\<close>

definition isupper :: "char \<Rightarrow> bool" where
  "isupper ch = (let n = (of_char ch :: nat) in 65 \<le> n \<and> n \<le> 90)"

text \<open>
  The loop that builds \<open>spaced\<close>: a blank goes before every uppercase letter but the
  first character.
\<close>

primrec spaced_rest :: "string \<Rightarrow> string" where
  "spaced_rest [] = []"
| "spaced_rest (ch # cs) =
     (if isupper ch then CHR '' '' # ch # spaced_rest cs else ch # spaced_rest cs)"

definition spaced :: "string \<Rightarrow> string" where
  "spaced name = (case name of [] \<Rightarrow> [] | ch # cs \<Rightarrow> ch # spaced_rest cs)"

fun safe_get :: "series \<Rightarrow> string list \<Rightarrow> real \<Rightarrow> real" where
  "safe_get s [] dflt = dflt"
| "safe_get s (name # field_names) dflt =
     (case numeric_at s name of
        Some v \<Rightarrow> v
      | None \<Rightarrow>
          (case (if spaced name \<noteq> name then numeric_at s (spaced name) else None) of
             Some v \<Rightarrow> v
           | None \<Rightarrow> safe_get s field_names dflt))"

subsection \<open>The line items of \<^verbatim>\<open>fetch_company\<close>\<close>

definition cash_sti :: "series \<Rightarrow> real" where
  "cash_sti latest =
     (let c = safe_get latest [''CashCashEquivalentsAndShortTermInvestments''] 0
      in if c = 0
         then safe_get latest [''CashAndCashEquivalents'', ''CashEquivalents''] 0
              + safe_get latest [''OtherShortTermInvestments'', ''AvailableForSaleSecurities''] 0
         else c)"

definition receivables :: "series \<Rightarrow> real" where
  "receivables latest =
     safe_get latest [''Receivables'', ''AccountsReceivable'', ''NetReceivables''] 0"

definition inventory :: "series \<Rightarrow> real" where
  "inventory latest = safe_get latest [''Inventory'', ''Inventories''] 0"

definition other_current :: "series \<Rightarrow> real" where
  "other_current latest = safe_get latest [''OtherCurrentAssets'', ''PrepaidAssets''] 0"

definition gross_zakaatable :: "series \<Rightarrow> real" where
  "gross_zakaatable latest =
     cash_sti latest + receivables latest + inventory latest + other_current latest"

definition nc_investments :: "series \<Rightarrow> real" where
  "nc_investments latest =
     safe_get latest [''InvestmentsAndAdvances'', ''InvestmentinFinancialAssets''] 0"

definition nc_deferred_tax_asset :: "series \<Rightarrow> real" where
  "nc_deferred_tax_asset latest =
     safe_get latest [''NonCurrentDeferredTaxesAssets'', ''NonCurrentDeferredAssets''] 0"

definition nc_receivables :: "series \<Rightarrow> real" where
  "nc_receivables latest = safe_get latest [''NonCurrentAccountsReceivable''] 0"

definition nc_liquid_total :: "series \<Rightarrow> real" where
  "nc_liquid_total latest =
     nc_investments latest + nc_deferred_tax_asset latest + nc_receivables latest"

definition gross_zakaatable_broad :: "series \<Rightarrow> real" where
  "gross_zakaatable_broad latest = gross_zakaatable latest + nc_liquid_total latest"

definition payables :: "series \<Rightarrow> real" where
  "payables latest = safe_get latest [''AccountsPayable''] 0"

definition current_debt :: "series \<Rightarrow> real" where
  "current_debt latest =
     (let d = safe_get latest [''CurrentDebt''] 0
      in if d = 0
         then (let combined = safe_get latest [''CurrentDebtAndCapitalLeaseObligation''] 0;
                   lease = safe_get latest [''CurrentCapitalLeaseObligation''] 0
               in max (combined - lease) 0)
         else d)"

definition accrued :: "series \<Rightarrow> real" where
  "accrued latest = safe_get latest [''CurrentAccruedExpenses''] 0"

definition taxes :: "series \<Rightarrow> real" where
  "taxes latest =
     safe_get latest [''TotalTaxPayable'', ''IncomeTaxPayable'', ''TaxesPayable''] 0"

definition total_deductions :: "series \<Rightarrow> real" where
  "total_deductions latest =
     payables latest + current_debt latest + accrued latest + taxes latest"

definition net_zakaatable_strict :: "series \<Rightarrow> real" where
  "net_zakaatable_strict latest = max (gross_zakaatable latest - total_deductions latest) 0"

definition net_broad_amount :: "series \<Rightarrow> real" where
  "net_broad_amount latest = max (gross_zakaatable_broad latest - total_deductions latest) 0"

definition net_assets_only_amount :: "series \<Rightarrow> real" where
  "net_assets_only_amount latest = gross_zakaatable_broad latest"

definition all_zero :: "series \<Rightarrow> bool" where
  "all_zero latest =
     (cash_sti latest = 0 \<and> receivables latest = 0 \<and> inventory latest = 0
      \<and> other_current latest = 0 \<and> payables latest = 0 \<and> current_debt latest = 0)"

subsection \<open>\<^verbatim>\<open>fetch_company\<close>\<close>

text \<open>
  What Yahoo Finance returns is an input of the model: the \<open>info\<close> dictionary and the
  quarterly and annual balance sheets. A data frame is its list of columns, latest
  first, each a date label with its series.
\<close>

record info =
  marketCap :: "real option"
  currency :: "string option"
  financialCurrency :: "string option"
  currentPrice :: "real option"
  previousClose :: "real option"
  sharesOutstanding :: "real option"
  longName :: "string option"
  shortName :: "string option"

definition empty_info :: info where
  "empty_info =
     \<lparr>marketCap = None, currency = None, financialCurrency = None, currentPrice = None,
      previousClose = None, sharesOutstanding = None, longName = None, shortName = None\<rparr>"

type_synonym dataframe = "(string \<times> series) list"

text \<open>\<^verbatim>\<open>df.empty\<close>: no column, or no row.\<close>

definition df_empty :: "dataframe \<Rightarrow> bool" where
  "df_empty df = (case df of [] \<Rightarrow> True | (label, col) # _ \<Rightarrow> col = [])"

text \<open>
  \<^verbatim>\<open>if x is not None and not x.empty: bs = x\<close> inside \<^verbatim>\<open>try\<close>; \<^term>\<open>None\<close> is a
  fetch that raised or returned \<^verbatim>\<open>None\<close>.
\<close>

definition usable :: "dataframe option \<Rightarrow> dataframe option" where
  "usable d = (case d of None \<Rightarrow> None | Some df \<Rightarrow> if df_empty df then None else Some df)"

text \<open>The quarterly balance sheet is preferred; the annual one is the second choice.\<close>

definition select_bs :: "dataframe option \<Rightarrow> dataframe option \<Rightarrow> dataframe option" where
  "select_bs qbs abs_bs = (case usable qbs of Some b \<Rightarrow> Some b | None \<Rightarrow> usable abs_bs)"

definition select_bs_type :: "dataframe option \<Rightarrow> string" where
  "select_bs_type qbs = (case usable qbs of Some b \<Rightarrow> ''quarterly'' | None \<Rightarrow> ''annual'')"

text \<open>\<^verbatim>\<open>a or b\<close> on a number that may be missing, and on a string.\<close>

definition num_or :: "real option \<Rightarrow> real \<Rightarrow> real" where
  "num_or v d = (case v of None \<Rightarrow> d | Some x \<Rightarrow> if x \<noteq> 0 then x else d)"

definition str_or :: "string option \<Rightarrow> string \<Rightarrow> string" where
  "str_or v d = (case v of None \<Rightarrow> d | Some x \<Rightarrow> if x \<noteq> [] then x else d)"

text \<open>The dictionary both fallback returns of \<^verbatim>\<open>fetch_company\<close> build.\<close>

definition fallback_data ::
  "string \<Rightarrow> string \<Rightarrow> real \<Rightarrow> string \<Rightarrow> string \<Rightarrow> real \<Rightarrow> string \<Rightarrow> company_data" where
  "fallback_data ticker_symbol lname mcap tcurr fcurr price err =
     \<lparr>ticker = Some ticker_symbol, long_name = Some lname, market_cap = Some mcap,
      trading_currency = Some tcurr, financial_currency = Some fcurr,
      current_price = Some price, bs_date = None, bs_type = None,
      assets = None, assets_broad = None, liabilities = None, net_zakaatable = None,
      net_zakaatable_broad = None, net_zakaatable_assets_only = None, error = Some err,
      zakaatable_pct = Some 25, fallback = Some True\<rparr>"

definition classified_data ::
  "string \<Rightarrow> string \<Rightarrow> real \<Rightarrow> string \<Rightarrow> string \<Rightarrow> real \<Rightarrow> string \<Rightarrow> string \<Rightarrow> series
     \<Rightarrow> company_data" where
  "classified_data ticker_symbol lname mcap tcurr fcurr price date btype latest =
     \<lparr>ticker = Some ticker_symbol, long_name = Some lname, market_cap = Some mcap,
      trading_currency = Some tcurr, financial_currency = Some fcurr,
      current_price = Some price, bs_date = Some date, bs_type = Some btype,
      assets = Some [''cash_and_sti'' \<mapsto> cash_sti latest,
                     ''receivables'' \<mapsto> receivables latest,
                     ''inventory'' \<mapsto> inventory latest,
                     ''other_current'' \<mapsto> other_current latest,
                     ''total'' \<mapsto> gross_zakaatable latest],
      assets_broad = Some [''nc_investments'' \<mapsto> nc_investments latest,
                           ''nc_deferred_tax_asset'' \<mapsto> nc_deferred_tax_asset latest,
                           ''nc_receivables'' \<mapsto> nc_receivables latest,
                           ''nc_liquid_total'' \<mapsto> nc_liquid_total latest,
                           ''total'' \<mapsto> gross_zakaatable_broad latest],
      liabilities = Some [''payables'' \<mapsto> payables latest,
                          ''current_debt'' \<mapsto> current_debt latest,
                          ''accrued_expenses'' \<mapsto> accrued latest,
                          ''taxes_payable'' \<mapsto> taxes latest,
                          ''total'' \<mapsto> total_deductions latest],
      net_zakaatable = Some (net_zakaatable_strict latest),
      net_zakaatable_broad = Some (net_broad_amount latest),
      net_zakaatable_assets_only = Some (net_assets_only_amount latest),
      error = None, zakaatable_pct = None, fallback = Some False\<rparr>"

text \<open>
  \<^verbatim>\<open>fetch_company\<close>. \<open>info_result\<close> is \<^term>\<open>None\<close> when \<^verbatim>\<open>ticker.info\<close> raised
  (the source then takes the empty dictionary). The test \<^verbatim>\<open>bs is None or bs.empty\<close>
  is the first two cases: a frame that \<open>select_bs\<close> returns has a column, so the case
  of no column is never taken.
\<close>

definition fetch_company ::
  "string \<Rightarrow> info option \<Rightarrow> dataframe option \<Rightarrow> dataframe option \<Rightarrow> company_data" where
  "fetch_company ticker_symbol info_result qbs abs_bs =
     (let inf = get_or info_result empty_info;
          mcap0 = num_or (marketCap inf) 0;
          tcurr = get_or (currency inf) ''USD'';
          fcurr = get_or (financialCurrency inf) tcurr;
          price = num_or (currentPrice inf) (num_or (previousClose inf) 0);
          shares_outstanding = num_or (sharesOutstanding inf) 0;
          lname = str_or (longName inf) (str_or (shortName inf) ticker_symbol);
          mcap = (if mcap0 = 0 \<and> shares_outstanding \<noteq> 0 \<and> price \<noteq> 0
                  then shares_outstanding * price else mcap0);
          bs = select_bs qbs abs_bs;
          btype = select_bs_type qbs
      in case bs of
           None \<Rightarrow>
             fallback_data ticker_symbol lname mcap tcurr fcurr price
               ''No balance sheet data available''
         | Some [] \<Rightarrow>
             fallback_data ticker_symbol lname mcap tcurr fcurr price
               ''No balance sheet data available''
         | Some ((date, latest) # _) \<Rightarrow>
             if all_zero latest
             then fallback_data ticker_symbol lname mcap tcurr fcurr price
                    ''Balance sheet data all empty/NaN''
             else classified_data ticker_symbol lname mcap tcurr fcurr price date btype latest)"

section \<open>Fund-level aggregation\<close>



type_synonym balance_sheets = "string \<rightharpoonup> company_data"







section \<open>ISA holdings\<close>

record isa_holding =
  i_name :: string
  i_ticker :: string

record isa_entry =
  ie_name :: string
  ie_ticker :: string
  ie_zakaatable_pct :: real
  ie_zakaatable_pct_broad :: real
  ie_zakaatable_pct_assets_only :: real
  ie_current_price :: real
  ie_price_gbp :: real
  ie_trading_currency :: string
  ie_fallback :: bool
  ie_error :: "string option"
  ie_bs_date :: string
  ie_market_cap :: real
  ie_financial_currency :: string
  ie_assets :: "string \<rightharpoonup> real"
  ie_assets_broad :: "string \<rightharpoonup> real"
  ie_liabilities :: "string \<rightharpoonup> real"
  ie_net_zakaatable :: real
  ie_net_zakaatable_broad :: real
  ie_net_zakaatable_assets_only :: real

text \<open>
  Lines 440--448 of \<^verbatim>\<open>compute_isa_data\<close>: the price in pounds, before the entry
  rounds it.
\<close>

definition price_gbp :: "real \<Rightarrow> string \<Rightarrow> fx_rates \<Rightarrow> py_error + real" where
  "price_gbp price trade_curr fx =
     (let gbp_rate = fx_get fx ''GBP'';
          trade_rate = fx_get fx trade_curr;
          converted =
            (if 0 < trade_rate
             then (case py_div price trade_rate of
                     Inl e \<Rightarrow> Inl e
                   | Inr q \<Rightarrow> Inr (q * gbp_rate))
             else Inr 0)
      in case converted of
           Inl e \<Rightarrow> Inl e
         | Inr p \<Rightarrow>
             if trade_curr = ''GBp'' \<or> trade_curr = ''GBX''
             then py_div price 100
             else Inr p)"

definition isa_entry_of ::
  "isa_holding \<Rightarrow> balance_sheets \<Rightarrow> fx_rates \<Rightarrow> py_error + isa_entry" where
  "isa_entry_of h sheets fx =
     (let bs_data = get_or (sheets (i_ticker h)) empty_company_data
      in case compute_zakaatable_pcts bs_data fx of
           Inl e \<Rightarrow> Inl e
         | Inr (pct_strict, pct_broad, pct_assets_only) \<Rightarrow>
             (let price = get_or (current_price bs_data) 0;
                  trade_curr = get_or (trading_currency bs_data) ''USD''
              in case price_gbp price trade_curr fx of
                   Inl e \<Rightarrow> Inl e
                 | Inr pgbp \<Rightarrow>
                     Inr \<lparr>ie_name = i_name h, ie_ticker = i_ticker h,
                          ie_zakaatable_pct = pct_strict,
                          ie_zakaatable_pct_broad = pct_broad,
                          ie_zakaatable_pct_assets_only = pct_assets_only,
                          ie_current_price = price,
                          ie_price_gbp = py_round pgbp 4,
                          ie_trading_currency = trade_curr,
                          ie_fallback = get_or (fallback bs_data) True,
                          ie_error = error bs_data,
                          ie_bs_date = get_or (bs_date bs_data) ''N/A'',
                          ie_market_cap = get_or (market_cap bs_data) 0,
                          ie_financial_currency = get_or (financial_currency bs_data) ''USD'',
                          ie_assets = get_or (assets bs_data) Map.empty,
                          ie_assets_broad = get_or (assets_broad bs_data) Map.empty,
                          ie_liabilities = get_or (liabilities bs_data) Map.empty,
                          ie_net_zakaatable = get_or (net_zakaatable bs_data) 0,
                          ie_net_zakaatable_broad = get_or (net_zakaatable_broad bs_data) 0,
                          ie_net_zakaatable_assets_only =
                            get_or (net_zakaatable_assets_only bs_data)
                              (get_total (assets_broad bs_data)
                                 (get_total (assets bs_data) 0))\<rparr>))"

fun isa_results ::
  "isa_holding list \<Rightarrow> balance_sheets \<Rightarrow> fx_rates \<Rightarrow> py_error + isa_entry list" where
  "isa_results [] sheets fx = Inr []"
| "isa_results (h # hs) sheets fx =
     (case isa_entry_of h sheets fx of
        Inl e \<Rightarrow> Inl e
      | Inr entry \<Rightarrow>
          (case isa_results hs sheets fx of
             Inl e \<Rightarrow> Inl e
           | Inr results \<Rightarrow> Inr (entry # results)))"

text \<open>\<^verbatim>\<open>compute_isa_data\<close>: the \<open>holdings\<close> of the result.\<close>

definition compute_isa_data ::
  "isa_holding list \<Rightarrow> balance_sheets \<Rightarrow> fx_rates \<Rightarrow> py_error + isa_entry list" where
  "compute_isa_data isa_holdings sheets fx = isa_results isa_holdings sheets fx"

section \<open>Derived notions used to state the properties\<close>



section \<open>Properties of the rounding\<close>

lemma round_half_even_cases:
  "round_half_even x = \<lfloor>x\<rfloor> \<or> round_half_even x = \<lfloor>x\<rfloor> + 1"
  by (simp add: round_half_even_def Let_def)

lemma round_half_even_of_int: "round_half_even (of_int n) = n"
  by (simp add: round_half_even_def Let_def)

lemma round_half_even_mono:
  assumes "x \<le> y"
  shows "round_half_even x \<le> round_half_even y"
proof (cases "\<lfloor>x\<rfloor> = \<lfloor>y\<rfloor>")
  case True
  have "x - of_int \<lfloor>x\<rfloor> \<le> y - of_int \<lfloor>y\<rfloor>" using assms True by simp
  then show ?thesis using True
    by (auto simp: round_half_even_def Let_def)
next
  case False
  have "\<lfloor>x\<rfloor> \<le> \<lfloor>y\<rfloor>" using assms by (rule floor_mono)
  with False have "\<lfloor>x\<rfloor> + 1 \<le> \<lfloor>y\<rfloor>" by simp
  moreover have "round_half_even x \<le> \<lfloor>x\<rfloor> + 1" using round_half_even_cases [of x] by auto
  moreover have "\<lfloor>y\<rfloor> \<le> round_half_even y" using round_half_even_cases [of y] by auto
  ultimately show ?thesis by linarith
qed

lemma py_round_mono: "x \<le> y \<Longrightarrow> py_round x n \<le> py_round y n"
  unfolding py_round_def
  by (intro divide_right_mono of_int_le_iff[THEN iffD2] round_half_even_mono mult_right_mono) simp_all

lemma py_round_of_int: "py_round (of_int k) n = of_int k"
proof -
  have "(of_int k :: real) * 10 ^ n = of_int (k * 10 ^ n)" by simp
  then have "round_half_even (of_int k * 10 ^ n) = k * 10 ^ n"
    using round_half_even_of_int by metis
  then show ?thesis by (simp add: py_round_def)
qed

lemma py_round_0: "py_round 0 n = 0"
  using py_round_of_int [of 0 n] by simp

lemma py_round_100: "py_round 100 n = 100"
  using py_round_of_int [of 100 n] by simp

lemma py_round_range: "0 \<le> x \<Longrightarrow> x \<le> 100 \<Longrightarrow> 0 \<le> py_round x n \<and> py_round x n \<le> 100"
  using py_round_mono [of 0 x n] py_round_mono [of x 100 n] by (simp add: py_round_0 py_round_100)

section \<open>Currency normalisation\<close>

lemma convert_cases:
  "convert x a m fx = Inr x \<or>
   (0 < fx_get fx a \<and> 0 < fx_get fx m \<and> convert x a m fx = Inr (x / fx_get fx a * fx_get fx m))"
  by (simp add: convert_def py_div_def Let_def)

lemma normalize_total: "\<exists>y. normalize_amount x a b fx = Inr y"
  using convert_cases [of x a "mcap_curr b" fx] by (auto simp: normalize_amount_def)

text \<open>
  C5, as amended. The conversion step leaves the amount alone whenever the financial
  currency equals the market-cap currency, for any table. The market-cap currency is the
  trading currency with \<open>GBp\<close> and \<open>GBX\<close> collapsed to \<open>GBP\<close>, so normalising from a code
  \<open>c\<close> to the same code \<open>c\<close> is a no-op for every \<open>c\<close> other than \<open>GBp\<close> and \<open>GBX\<close>.
\<close>

theorem normalize_same_currency:
  "convert x c c fx = Inr x \<and>
   (c \<noteq> ''GBp'' \<and> c \<noteq> ''GBX'' \<longrightarrow> normalize_amount x c c fx = Inr x)"
  by (simp add: normalize_amount_def convert_def mcap_curr_def)

theorem normalize_same_currency_witness:
  "convert 50 ''USD'' ''USD'' [''GBP'' \<mapsto> 0.8] = Inr 50 \<and>
   ''USD'' \<noteq> ''GBp'' \<and> ''USD'' \<noteq> ''GBX'' \<and>
   normalize_amount 50 ''USD'' ''USD'' [''GBP'' \<mapsto> 0.8] = Inr 50"
  using normalize_same_currency [of 50 "''USD''" "[''GBP'' \<mapsto> 0.8]"] by simp

text \<open>
  C5 as stated fails for the pence codes: with both currencies \<open>GBp\<close> the amount 50 is
  taken from pence to pounds, and the percentage of a market cap of 100 is 0.5, where an
  unchanged amount gives 50.
\<close>

theorem normalize_pence_counterexample:
  "normalize_amount 50 ''GBp'' ''GBp'' [''GBP'' \<mapsto> 0.8, ''GBp'' \<mapsto> 80] = Inr 0.5 \<and>
   convert_and_calc_pct 50 100 ''GBp'' ''GBp'' [''GBP'' \<mapsto> 0.8, ''GBp'' \<mapsto> 80] = Inr 0.5 \<and>
   convert_and_calc_pct 50 100 ''GBP'' ''GBP'' [''GBP'' \<mapsto> 0.8, ''GBp'' \<mapsto> 80] = Inr 50"
  by (simp add: convert_and_calc_pct_def normalize_amount_def convert_def mcap_curr_def fx_get_def
      py_div_def py_round_def round_half_even_def Let_def)




text \<open>
  C8. A code that the table lacks resolves to the rate 1, and giving it the rate 1 in the
  table changes nothing; when either resolved rate is zero or negative the amount comes
  back unchanged; and the normaliser never raises: it returns the amount itself, or the
  amount divided by a strictly positive rate and multiplied by a strictly positive rate.
\<close>

theorem normalize_safe:
  "(fx c = None \<longrightarrow>
      fx_get fx c = 1 \<and> normalize_amount x a b (fx(c \<mapsto> 1)) = normalize_amount x a b fx) \<and>
   (fx_get fx a \<le> 0 \<or> fx_get fx (mcap_curr b) \<le> 0 \<longrightarrow> normalize_amount x a b fx = Inr x) \<and>
   (normalize_amount x a b fx = Inr x \<or>
    (0 < fx_get fx a \<and> 0 < fx_get fx (mcap_curr b) \<and>
     normalize_amount x a b fx = Inr (x / fx_get fx a * fx_get fx (mcap_curr b))))"
  by (auto simp: normalize_amount_def convert_def fx_get_def py_div_def Let_def)

theorem normalize_safe_witness:
  "[''GBP'' \<mapsto> 0.8 :: real] ''XYZ'' = None \<and>
   normalize_amount 100 ''XYZ'' ''GBP'' ([''GBP'' \<mapsto> 0.8](''XYZ'' \<mapsto> 1)) = Inr 80 \<and>
   normalize_amount 100 ''XYZ'' ''GBP'' [''GBP'' \<mapsto> 0.8] = Inr 80 \<and>
   fx_get [''ZZZ'' \<mapsto> 0, ''GBP'' \<mapsto> 0.8] ''ZZZ'' \<le> 0 \<and>
   normalize_amount 100 ''ZZZ'' ''GBP'' [''ZZZ'' \<mapsto> 0, ''GBP'' \<mapsto> 0.8] = Inr 100"
  using normalize_safe [of "[''GBP'' \<mapsto> 0.8]" "''XYZ''" 100 "''XYZ''" "''GBP''"]
    normalize_safe [of "[''ZZZ'' \<mapsto> 0, ''GBP'' \<mapsto> 0.8]" "''ZZZ''" 100 "''ZZZ''" "''GBP''"]
  by (simp add: normalize_amount_def convert_def mcap_curr_def fx_get_def py_div_def Let_def)

section \<open>Percentages of a company\<close>

lemma convert_and_calc_pct_value:
  assumes "mc \<noteq> 0" "normalize_amount x fc tc fx = Inr v"
  shows "convert_and_calc_pct x mc fc tc fx = Inr (py_round (max 0 (min (v / mc * 100) 100)) 4)"
  using assms by (simp add: convert_and_calc_pct_def py_div_def)

lemma convert_and_calc_pct_range:
  assumes "mc \<noteq> 0"
  shows "\<exists>p. convert_and_calc_pct x mc fc tc fx = Inr p \<and> 0 \<le> p \<and> p \<le> 100"
proof -
  obtain v where v: "normalize_amount x fc tc fx = Inr v" using normalize_total by blast
  let ?q = "max 0 (min (v / mc * 100) 100)"
  have "0 \<le> ?q" "?q \<le> 100" by simp_all
  then have "0 \<le> py_round ?q 4 \<and> py_round ?q 4 \<le> 100" by (rule py_round_range)
  then show ?thesis using convert_and_calc_pct_value [OF assms v] by simp
qed



lemma compute_regular:
  assumes "fallback cd \<noteq> Some True" "0 < get_or (market_cap cd) 0"
  shows "\<exists>s b a.
     convert_and_calc_pct (get_or (net_zakaatable cd) 0) (get_or (market_cap cd) 0)
       (get_or (financial_currency cd) ''USD'') (get_or (trading_currency cd) ''USD'') fx = Inr s \<and>
     convert_and_calc_pct (get_or (net_zakaatable_broad cd) (get_or (net_zakaatable cd) 0))
       (get_or (market_cap cd) 0)
       (get_or (financial_currency cd) ''USD'') (get_or (trading_currency cd) ''USD'') fx = Inr b \<and>
     convert_and_calc_pct
       (get_or (net_zakaatable_assets_only cd)
          (get_total (assets_broad cd)
             (get_total (assets cd) (get_or (net_zakaatable_broad cd) (get_or (net_zakaatable cd) 0)))))
       (get_or (market_cap cd) 0)
       (get_or (financial_currency cd) ''USD'') (get_or (trading_currency cd) ''USD'') fx = Inr a \<and>
     compute_zakaatable_pcts cd fx = Inr (s, b, a) \<and>
     0 \<le> s \<and> s \<le> 100 \<and> 0 \<le> b \<and> b \<le> 100 \<and> 0 \<le> a \<and> a \<le> 100"
proof -
  let ?mc = "get_or (market_cap cd) 0"
  let ?fc = "get_or (financial_currency cd) ''USD''"
  let ?tc = "get_or (trading_currency cd) ''USD''"
  let ?ns = "get_or (net_zakaatable cd) 0"
  let ?nb = "get_or (net_zakaatable_broad cd) ?ns"
  let ?ao = "get_or (net_zakaatable_assets_only cd)
          (get_total (assets_broad cd) (get_total (assets cd) ?nb))"
  have mc: "?mc \<noteq> 0" using assms(2) by simp
  obtain s where s: "convert_and_calc_pct ?ns ?mc ?fc ?tc fx = Inr s" "0 \<le> s" "s \<le> 100"
    using convert_and_calc_pct_range [OF mc] by blast
  obtain b where b: "convert_and_calc_pct ?nb ?mc ?fc ?tc fx = Inr b" "0 \<le> b" "b \<le> 100"
    using convert_and_calc_pct_range [OF mc] by blast
  obtain a where a: "convert_and_calc_pct ?ao ?mc ?fc ?tc fx = Inr a" "0 \<le> a" "a \<le> 100"
    using convert_and_calc_pct_range [OF mc] by blast
  have "compute_zakaatable_pcts cd fx = Inr (s, b, a)"
    using assms s(1) b(1) a(1) by (simp add: compute_zakaatable_pcts_def Let_def)
  then show ?thesis using s b a by blast
qed










section \<open>The classifier\<close>

lemma fetch_company_all_zero:
  assumes "select_bs q a = Some ((d, latest) # rest)" "all_zero latest"
  shows "\<exists>l m tc fc p. fetch_company t i q a =
           fallback_data t l m tc fc p ''Balance sheet data all empty/NaN''"
  using assms by (simp add: fetch_company_def Let_def) blast

lemma fetch_company_classified:
  assumes "select_bs q a = Some ((d, latest) # rest)" "\<not> all_zero latest"
  shows "\<exists>l m tc fc p bt. fetch_company t i q a = classified_data t l m tc fc p d bt latest"
  using assms by (simp add: fetch_company_def Let_def) blast

lemma normalize_mono:
  assumes "x \<le> y" "normalize_amount x fc tc fx = Inr u" "normalize_amount y fc tc fx = Inr v"
  shows "u \<le> v"
  using assms
  by (auto simp: normalize_amount_def convert_def py_div_def Let_def split: if_splits
      intro!: mult_right_mono divide_right_mono)

lemma convert_and_calc_pct_mono:
  assumes "x \<le> y" "0 < mc"
    "convert_and_calc_pct x mc fc tc fx = Inr p" "convert_and_calc_pct y mc fc tc fx = Inr r"
  shows "p \<le> r"
proof -
  obtain u where u: "normalize_amount x fc tc fx = Inr u" using normalize_total by blast
  obtain v where v: "normalize_amount y fc tc fx = Inr v" using normalize_total by blast
  have uv: "u \<le> v" using assms(1) u v by (rule normalize_mono)
  have mc: "mc \<noteq> 0" using assms(2) by simp
  have "u / mc * 100 \<le> v / mc * 100" using uv assms(2) by (simp add: divide_right_mono)
  then have "max 0 (min (u / mc * 100) 100) \<le> max 0 (min (v / mc * 100) 100)" by auto
  then have "py_round (max 0 (min (u / mc * 100) 100)) 4
             \<le> py_round (max 0 (min (v / mc * 100) 100)) 4" by (rule py_round_mono)
  then show ?thesis
    using assms(3,4) convert_and_calc_pct_value [OF mc u] convert_and_calc_pct_value [OF mc v]
    by simp
qed

text \<open>
  C3, as amended. For every balance sheet whose six core line items (cash and short-term
  investments, receivables, inventory, other current assets, payables, current debt) all
  resolve to 0, \<^verbatim>\<open>fetch_company\<close> marks the company as fallback with the reason
  \<open>Balance sheet data all empty/NaN\<close>, and the three percentages computed from the
  record are 25.
\<close>

theorem all_zero_is_fallback:
  assumes "select_bs q a = Some ((d, latest) # rest)" "all_zero latest"
  shows "fallback (fetch_company t i q a) = Some True \<and>
         error (fetch_company t i q a) = Some ''Balance sheet data all empty/NaN'' \<and>
         compute_zakaatable_pcts (fetch_company t i q a) fx = Inr (25, 25, 25)"
proof -
  obtain l m tc fc p where r: "fetch_company t i q a =
           fallback_data t l m tc fc p ''Balance sheet data all empty/NaN''"
    using fetch_company_all_zero [OF assms] by blast
  show ?thesis unfolding r
    by (simp add: fallback_data_def compute_zakaatable_pcts_def get_or_def)
qed

theorem all_zero_is_fallback_witness:
  "select_bs (Some [(''2024-12-31'', [(''Inventory'', NaN), (''AccountsPayable'', Num 0)])]) None
     = Some ((''2024-12-31'', [(''Inventory'', NaN), (''AccountsPayable'', Num 0)]) # []) \<and>
   all_zero [(''Inventory'', NaN), (''AccountsPayable'', Num 0)] \<and>
   fallback (fetch_company ''ABC'' None
      (Some [(''2024-12-31'', [(''Inventory'', NaN), (''AccountsPayable'', Num 0)])]) None)
     = Some True \<and>
   compute_zakaatable_pcts (fetch_company ''ABC'' None
      (Some [(''2024-12-31'', [(''Inventory'', NaN), (''AccountsPayable'', Num 0)])]) None)
      Map.empty = Inr (25, 25, 25)"
proof -
  have h1: "select_bs (Some [(''2024-12-31'', [(''Inventory'', NaN), (''AccountsPayable'', Num 0)])])
      None = Some ((''2024-12-31'', [(''Inventory'', NaN), (''AccountsPayable'', Num 0)]) # [])"
    by (simp add: select_bs_def usable_def df_empty_def)
  have h2: "all_zero [(''Inventory'', NaN), (''AccountsPayable'', Num 0)]"
    by (simp add: all_zero_def cash_sti_def receivables_def inventory_def other_current_def
        payables_def current_debt_def numeric_at_def spaced_def isupper_def Let_def)
  show ?thesis
    using all_zero_is_fallback [OF h1 h2, of "''ABC''" None Map.empty] h1 h2 by blast
qed

text \<open>
  C3 as stated names the reason \<open>balance sheet data all empty\<close>; the reason that the
  code records on an all-zero balance sheet is another string.
\<close>

theorem all_zero_reason_counterexample:
  "all_zero [(''Inventory'', NaN), (''AccountsPayable'', Num 0)] \<and>
   error (fetch_company ''ABC'' None
      (Some [(''2024-12-31'', [(''Inventory'', NaN), (''AccountsPayable'', Num 0)])]) None)
     = Some ''Balance sheet data all empty/NaN'' \<and>
   error (fetch_company ''ABC'' None
      (Some [(''2024-12-31'', [(''Inventory'', NaN), (''AccountsPayable'', Num 0)])]) None)
     \<noteq> Some ''balance sheet data all empty''"
proof -
  have h1: "select_bs (Some [(''2024-12-31'', [(''Inventory'', NaN), (''AccountsPayable'', Num 0)])])
      None = Some ((''2024-12-31'', [(''Inventory'', NaN), (''AccountsPayable'', Num 0)]) # [])"
    by (simp add: select_bs_def usable_def df_empty_def)
  have h2: "all_zero [(''Inventory'', NaN), (''AccountsPayable'', Num 0)]"
    by (simp add: all_zero_def cash_sti_def receivables_def inventory_def other_current_def
        payables_def current_debt_def numeric_at_def spaced_def isupper_def Let_def)
  obtain l m tc fc p where r: "fetch_company ''ABC'' None
      (Some [(''2024-12-31'', [(''Inventory'', NaN), (''AccountsPayable'', Num 0)])]) None
      = fallback_data ''ABC'' l m tc fc p ''Balance sheet data all empty/NaN''"
    using fetch_company_all_zero [OF h1 h2] by blast
  have e: "error (fallback_data ''ABC'' l m tc fc p ''Balance sheet data all empty/NaN'')
      = Some ''Balance sheet data all empty/NaN''"
    by (simp add: fallback_data_def)
  have ne: "Some ''Balance sheet data all empty/NaN'' \<noteq> Some ''balance sheet data all empty''"
    by simp
  show ?thesis unfolding r e using h2 ne by blast
qed

text \<open>
  C10. For every record that \<^verbatim>\<open>fetch_company\<close> classifies (so not a fallback) with a
  market cap above 0, whose non-current liquid total, deductible-liability total and
  gross current zakaatable total are each non-negative, the strict percentage is at most
  the broad percentage, which is at most the assets-only percentage.
\<close>

theorem pcts_ordered:
  assumes bs: "select_bs q a = Some ((d, latest) # rest)" and nz: "\<not> all_zero latest"
    and mc: "market_cap (fetch_company t i q a) = Some m" "0 < m"
    and nn: "0 \<le> nc_liquid_total latest" "0 \<le> total_deductions latest"
      "0 \<le> gross_zakaatable latest"
  shows "fallback (fetch_company t i q a) = Some False \<and>
         (\<exists>s b ao. compute_zakaatable_pcts (fetch_company t i q a) fx = Inr (s, b, ao) \<and>
            s \<le> b \<and> b \<le> ao)"
proof -
  let ?r = "fetch_company t i q a"
  obtain l m' tc fc p bt where r: "?r = classified_data t l m' tc fc p d bt latest"
    using fetch_company_classified [OF bs nz] by blast
  have fb: "fallback ?r = Some False" by (simp add: r classified_data_def)
  then have nf: "fallback ?r \<noteq> Some True" by simp
  have mcp: "0 < get_or (market_cap ?r) 0" using mc by (simp add: get_or_def)
  have ns: "get_or (net_zakaatable ?r) 0 = net_zakaatable_strict latest"
    by (simp add: r classified_data_def get_or_def)
  have nb: "get_or (net_zakaatable_broad ?r) x = net_broad_amount latest" for x
    by (simp add: r classified_data_def get_or_def)
  have na: "get_or (net_zakaatable_assets_only ?r) x = net_assets_only_amount latest" for x
    by (simp add: r classified_data_def get_or_def)
  have le1: "net_zakaatable_strict latest \<le> net_broad_amount latest"
    using nn(1) by (simp add: net_zakaatable_strict_def net_broad_amount_def gross_zakaatable_broad_def)
  have le2: "net_broad_amount latest \<le> net_assets_only_amount latest"
    using nn by (simp add: net_assets_only_amount_def net_broad_amount_def gross_zakaatable_broad_def)
  obtain s b ao where
    s: "convert_and_calc_pct (net_zakaatable_strict latest) (get_or (market_cap ?r) 0)
       (get_or (financial_currency ?r) ''USD'') (get_or (trading_currency ?r) ''USD'') fx = Inr s"
    and b: "convert_and_calc_pct (net_broad_amount latest) (get_or (market_cap ?r) 0)
       (get_or (financial_currency ?r) ''USD'') (get_or (trading_currency ?r) ''USD'') fx = Inr b"
    and ao: "convert_and_calc_pct (net_assets_only_amount latest) (get_or (market_cap ?r) 0)
       (get_or (financial_currency ?r) ''USD'') (get_or (trading_currency ?r) ''USD'') fx = Inr ao"
    and c: "compute_zakaatable_pcts ?r fx = Inr (s, b, ao)"
    using compute_regular [OF nf mcp, of fx] unfolding ns nb na by blast
  have "s \<le> b" using le1 mcp s b by (rule convert_and_calc_pct_mono)
  moreover have "b \<le> ao" using le2 mcp b ao by (rule convert_and_calc_pct_mono)
  ultimately show ?thesis using fb c by blast
qed

theorem pcts_ordered_witness:
  "select_bs (Some [(''2024-12-31'',
       [(''CashCashEquivalentsAndShortTermInvestments'', Num 100), (''Receivables'', Num 20),
        (''InvestmentsAndAdvances'', Num 50), (''AccountsPayable'', Num 30)])]) None
     = Some ((''2024-12-31'',
       [(''CashCashEquivalentsAndShortTermInvestments'', Num 100), (''Receivables'', Num 20),
        (''InvestmentsAndAdvances'', Num 50), (''AccountsPayable'', Num 30)]) # []) \<and>
   \<not> all_zero
       [(''CashCashEquivalentsAndShortTermInvestments'', Num 100), (''Receivables'', Num 20),
        (''InvestmentsAndAdvances'', Num 50), (''AccountsPayable'', Num 30)] \<and>
   market_cap
     (fetch_company ''ABC'' (Some (empty_info\<lparr>marketCap := Some 1000\<rparr>))
        (Some [(''2024-12-31'',
          [(''CashCashEquivalentsAndShortTermInvestments'', Num 100), (''Receivables'', Num 20),
           (''InvestmentsAndAdvances'', Num 50), (''AccountsPayable'', Num 30)])]) None)
     = Some 1000 \<and>
   compute_zakaatable_pcts
     (fetch_company ''ABC'' (Some (empty_info\<lparr>marketCap := Some 1000\<rparr>))
        (Some [(''2024-12-31'',
          [(''CashCashEquivalentsAndShortTermInvestments'', Num 100), (''Receivables'', Num 20),
           (''InvestmentsAndAdvances'', Num 50), (''AccountsPayable'', Num 30)])]) None)
     Map.empty = Inr (9, 14, 17) \<and>
   (\<exists>s b ao. compute_zakaatable_pcts
     (fetch_company ''ABC'' (Some (empty_info\<lparr>marketCap := Some 1000\<rparr>))
        (Some [(''2024-12-31'',
          [(''CashCashEquivalentsAndShortTermInvestments'', Num 100), (''Receivables'', Num 20),
           (''InvestmentsAndAdvances'', Num 50), (''AccountsPayable'', Num 30)])]) None)
     Map.empty = Inr (s, b, ao) \<and> s \<le> b \<and> b \<le> ao)"
proof -
  let ?latest = "[(''CashCashEquivalentsAndShortTermInvestments'', Num 100),
        (''Receivables'', Num 20), (''InvestmentsAndAdvances'', Num 50),
        (''AccountsPayable'', Num 30)]"
  let ?q = "Some [(''2024-12-31'', ?latest)]"
  let ?i = "Some (empty_info\<lparr>marketCap := Some 1000\<rparr>)"
  have h1: "select_bs ?q None = Some ((''2024-12-31'', ?latest) # [])"
    by (simp add: select_bs_def usable_def df_empty_def)
  have cash: "cash_sti ?latest = 100"
    by (simp add: cash_sti_def numeric_at_def Let_def)
  have recv: "receivables ?latest = 20"
    by (simp add: receivables_def numeric_at_def)
  have inv: "inventory ?latest = 0"
    by (simp add: inventory_def numeric_at_def spaced_def isupper_def)
  have oth: "other_current ?latest = 0"
    by (simp add: other_current_def numeric_at_def spaced_def isupper_def)
  have nci: "nc_investments ?latest = 50"
    by (simp add: nc_investments_def numeric_at_def)
  have ncd: "nc_deferred_tax_asset ?latest = 0"
    by (simp add: nc_deferred_tax_asset_def numeric_at_def spaced_def isupper_def)
  have ncr: "nc_receivables ?latest = 0"
    by (simp add: nc_receivables_def numeric_at_def spaced_def isupper_def)
  have pay: "payables ?latest = 30"
    by (simp add: payables_def numeric_at_def)
  have debt: "current_debt ?latest = 0"
    by (simp add: current_debt_def numeric_at_def spaced_def isupper_def Let_def)
  have accr: "accrued ?latest = 0"
    by (simp add: accrued_def numeric_at_def spaced_def isupper_def)
  have tax: "taxes ?latest = 0"
    by (simp add: taxes_def numeric_at_def spaced_def isupper_def)
  have h2: "\<not> all_zero ?latest" by (simp add: all_zero_def cash)
  have h3: "market_cap (fetch_company ''ABC'' ?i ?q None) = Some 1000"
    using h1 h2
    by (simp add: fetch_company_def classified_data_def get_or_def num_or_def empty_info_def
        Let_def)
  have h4: "(0::real) < 1000" by simp
  have h5: "0 \<le> nc_liquid_total ?latest" by (simp add: nc_liquid_total_def nci ncd ncr)
  have h6: "0 \<le> total_deductions ?latest"
    by (simp add: total_deductions_def pay debt accr tax)
  have h7: "0 \<le> gross_zakaatable ?latest" by (simp add: gross_zakaatable_def cash recv inv oth)
  have v: "compute_zakaatable_pcts (fetch_company ''ABC'' ?i ?q None) Map.empty = Inr (9, 14, 17)"
    using h1 h2
    by (simp add: fetch_company_def classified_data_def get_or_def num_or_def empty_info_def
        compute_zakaatable_pcts_def convert_and_calc_pct_def normalize_amount_def convert_def
        mcap_curr_def py_div_def py_round_def round_half_even_def net_zakaatable_strict_def
        net_broad_amount_def net_assets_only_amount_def gross_zakaatable_broad_def
        gross_zakaatable_def nc_liquid_total_def total_deductions_def
        cash recv inv oth nci ncd ncr pay debt accr tax Let_def)
  show ?thesis
    using pcts_ordered [OF h1 h2 h3 h4 h5 h6 h7, of Map.empty] h1 h2 h3 v by blast
qed

section \<open>The fund aggregate\<close>












section \<open>ISA prices\<close>





end
